theory Spec2Isabelle
  imports Complex_Main
begin

section \<open>Python values, dictionaries and exceptions\<close>

text \<open>
  The client of \<^verbatim>\<open>remoteinference/models/models.py\<close> moves Python values around without
  computing on them.  A value of type \<^verbatim>\<open>Any\<close> is one of the JSON-shaped Python values; the
  type parameter \<open>'f\<close> stands for Python's \<^verbatim>\<open>float\<close>, which the client only carries.
  A \<^verbatim>\<open>dict\<close> is an association list in insertion order; \<open>PNone\<close> is Python's \<^verbatim>\<open>None\<close>, which
  is both the "no result" value of the client and the decoding of the JSON text \<^verbatim>\<open>null\<close>.
\<close>

datatype 'f pyval =
    PNone
  | PBool bool
  | PInt int
  | PFloat 'f
  | PStr string
  | PList "'f pyval list"
  | PDict "(string \<times> 'f pyval) list"

text \<open>
  The exceptions that occur.  \<open>RequestException\<close> stands for \<^verbatim>\<open>requests.RequestException\<close> and
  all its subclasses, the argument naming the subclass (ConnectionError, Timeout, HTTPError,
  ...).  \<open>JSONDecodeError\<close> is what \<^verbatim>\<open>Response.json()\<close> raises on a body that is not JSON.
\<close>

datatype exn =
    RequestException string
  | JSONDecodeError
  | TypeError
  | KeyError string
  | OtherException string

text \<open>\<^verbatim>\<open>d[k] = v\<close> on a dict: an existing key keeps its position, a new key goes last.\<close>

primrec setitem :: "string \<Rightarrow> 'v \<Rightarrow> (string \<times> 'v) list \<Rightarrow> (string \<times> 'v) list" where
  "setitem k v [] = [(k, v)]"
| "setitem k v (e # d) = (if fst e = k then (k, v) # d else e # setitem k v d)"

text \<open>\<^verbatim>\<open>{**d, **kwargs}\<close>: the entries of \<open>kwargs\<close> are stored into \<open>d\<close> from left to right.\<close>

definition unpack_into :: "(string \<times> 'v) list \<Rightarrow> (string \<times> 'v) list \<Rightarrow> (string \<times> 'v) list" where
  "unpack_into kwargs d = fold (\<lambda>(k, v). setitem k v) kwargs d"

text \<open>
  \<^verbatim>\<open>response[key]\<close> with a string key: a dict gives the stored value or raises KeyError;
  None, booleans and numbers are not subscriptable, and strings and lists are not indexed by
  strings: all of these raise TypeError.
\<close>

fun getitem :: "'f pyval \<Rightarrow> string \<Rightarrow> exn + 'f pyval" where
  "getitem (PDict d) k = (case map_of d k of None \<Rightarrow> Inl (KeyError k) | Some v \<Rightarrow> Inr v)"
| "getitem _ k = Inl TypeError"

text \<open>\<^verbatim>\<open>str(n)\<close> for an integer, as an f-string renders it.\<close>

fun str_nat :: "nat \<Rightarrow> string" where
  "str_nat n = (if n < 10 then [''0123456789'' ! n]
                else str_nat (n div 10) @ [''0123456789'' ! (n mod 10)])"

definition str_int :: "int \<Rightarrow> string" where
  "str_int i = (if i < 0 then CHR ''-'' # str_nat (nat (- i)) else str_nat (nat i))"

section \<open>Configuration, requests, responses\<close>

text \<open>
  Modelled from the spec: the class \<^verbatim>\<open>ServerConfig\<close> of \<^verbatim>\<open>remoteinference.util.config\<close>, which
  is not among the sources.  The spec gives it three fields: the host string, the integer
  port, and the API key string.
\<close>

record ServerConfig =
  server_address :: string
  server_port :: int
  api_key :: string

definition COMPLETION_ENDPOINT :: string where
  "COMPLETION_ENDPOINT = ''completion''"

definition CHAT_ENDPOINT :: string where
  "CHAT_ENDPOINT = ''v1/chat/completions''"

text \<open>The arguments of one call \<^verbatim>\<open>requests.post(url=..., headers=..., json=...)\<close>.\<close>

record 'f request =
  url :: string
  headers :: "(string \<times> string) list"
  json :: "(string \<times> 'f pyval) list"

text \<open>
  What the client reads of a \<^verbatim>\<open>requests.Response\<close>: the status code and the body bytes.
  A freshly constructed Response has no body (its \<^verbatim>\<open>content\<close> is None, as falsy as \<^verbatim>\<open>b''\<close>);
  both are the empty byte string here.
\<close>

record Response =
  status_code :: int
  content :: string

datatype post_outcome = Raises exn | Returns Response

text \<open>
  The network and the server are the environment: a transport takes the request and the state
  of the world and yields what \<^verbatim>\<open>requests.post\<close> does (an exception or a response) and the
  next state of the world.
\<close>

type_synonym ('f, 'w) transport = "'f request \<Rightarrow> 'w \<Rightarrow> post_outcome \<times> 'w"

text \<open>
  The decoder behind \<^verbatim>\<open>Response.json()\<close> belongs to the requests library; it is a parameter,
  None standing for a body that is not valid JSON.
\<close>

type_synonym 'f decoder = "string \<Rightarrow> 'f pyval option"

section \<open>Logging and the state of a run\<close>

datatype level = DEBUG | INFO | ERROR

text \<open>
  One constructor for each message the module logs; the values that the f-string would
  render are kept as they are.
\<close>

datatype 'f log_msg =
    Prompt_result string "'f pyval"
  | Sending_chat_prompt "(string \<times> 'f pyval) list"
  | Chat_result "'f pyval"
  | Sending_request string
  | Raw_request_content "(string \<times> 'f pyval) list"
  | Raw_request_header "(string \<times> string) list"
  | Server_response Response
  | Received_error exn

record ('f, 'w) io =
  posted :: "'f request list"
  logged :: "(level \<times> 'f log_msg) list"
  world :: 'w

definition logger :: "level \<Rightarrow> 'f log_msg \<Rightarrow> ('f, 'w) io \<Rightarrow> ('f, 'w) io" where
  "logger lv m s = s\<lparr>logged := logged s @ [(lv, m)]\<rparr>"

text \<open>\<^verbatim>\<open>requests.post\<close>: the call is recorded and the transport decides its outcome.\<close>

definition requests_post ::
  "('f, 'w) transport \<Rightarrow> 'f request \<Rightarrow> ('f, 'w) io \<Rightarrow> post_outcome \<times> ('f, 'w) io" where
  "requests_post post req s =
     (case post req (world s) of
        (out, w) \<Rightarrow> (out, s\<lparr>posted := posted s @ [req], world := w\<rparr>))"

text \<open>\<^verbatim>\<open>Response.raise_for_status()\<close> raises HTTPError for the 4xx and 5xx codes.\<close>

definition raise_for_status :: "Response \<Rightarrow> exn + unit" where
  "raise_for_status r =
     (if 400 \<le> status_code r \<and> status_code r < 600
      then Inl (RequestException ''HTTPError'') else Inr ())"

definition Response_json :: "'f decoder \<Rightarrow> Response \<Rightarrow> exn + 'f pyval" where
  "Response_json loads r =
     (case loads (content r) of None \<Rightarrow> Inl JSONDecodeError | Some v \<Rightarrow> Inr v)"

section \<open>The client\<close>

text \<open>
  The request headers of \<^verbatim>\<open>__send_request\<close> (the dict \<^verbatim>\<open>headers\<close>) and its f-string
  \<^verbatim>\<open>server_url\<close>; the backslash at the end of the first source line of the f-string joins
  the two lines without any character in between.
\<close>

definition request_headers :: "ServerConfig \<Rightarrow> (string \<times> string) list" where
  "request_headers config =
     [(''accept'', ''application/json''),
      (''content-type'', ''application/json''),
      (''Authorization'', ''Bearer '' @ api_key config)]"

definition server_url :: "ServerConfig \<Rightarrow> string \<Rightarrow> string" where
  "server_url config api_endpoint =
     ''http://'' @ server_address config @ '':'' @ str_int (server_port config)
       @ ''/'' @ api_endpoint"

text \<open>
  \<^verbatim>\<open>LlamaCPPLLM.__send_request\<close>.  The placeholder response with status 204 is what stays in
  \<^verbatim>\<open>response\<close> when \<^verbatim>\<open>requests.post\<close> itself raises; when \<^verbatim>\<open>raise_for_status\<close> raises, the
  variable already holds the server's response.  Only RequestException is caught; the
  test of \<^verbatim>\<open>response.content\<close> and the call of \<^verbatim>\<open>response.json()\<close> come after the try block.
\<close>

definition send_request ::
  "('f, 'w) transport \<Rightarrow> 'f decoder \<Rightarrow> ServerConfig \<Rightarrow> (string \<times> 'f pyval) list \<Rightarrow> string
     \<Rightarrow> ('f, 'w) io \<Rightarrow> (exn + 'f pyval) \<times> ('f, 'w) io" where
  "send_request post loads config payload api_endpoint s0 =
     (let hdrs = request_headers config;
          url0 = server_url config api_endpoint;
          s1 = logger INFO (Sending_request url0) s0;
          s2 = logger DEBUG (Raw_request_content payload) s1;
          s3 = logger DEBUG (Raw_request_header hdrs) s2;
          placeholder = \<lparr>status_code = 204, content = []\<rparr>;
          after_try = (\<lambda>response s.
             (if content response \<noteq> [] then Response_json loads response else Inr PNone, s))
      in case requests_post post \<lparr>url = url0, headers = hdrs, json = payload\<rparr> s3 of
           (Raises e, s4) \<Rightarrow>
             (case e of
                RequestException c \<Rightarrow> after_try placeholder (logger ERROR (Received_error e) s4)
              | _ \<Rightarrow> (Inl e, s4))
         | (Returns response, s4) \<Rightarrow>
             (case raise_for_status response of
                Inl e \<Rightarrow> after_try response (logger ERROR (Received_error e) s4)
              | Inr u \<Rightarrow> after_try response (logger INFO (Server_response response) s4)))"

text \<open>
  Binding the arguments of a call.  Both public methods take \<^verbatim>\<open>self\<close>, three named parameters
  and \<^verbatim>\<open>**kwargs\<close>.  A keyword argument whose name is one of the parameters does not reach
  \<^verbatim>\<open>kwargs\<close>: with the three positional arguments given, Python raises TypeError (multiple
  values for the argument) at the call, before the body of the method runs.
\<close>

definition rejected_keywords :: "string list \<Rightarrow> (string \<times> 'v) list \<Rightarrow> string list" where
  "rejected_keywords params kwargs = filter (\<lambda>k. k \<in> set params) (map fst kwargs)"

definition completion_parameters :: "string list" where
  "completion_parameters = [''self'', ''prompt'', ''temperature'', ''max_tokens'']"

definition chat_completion_parameters :: "string list" where
  "chat_completion_parameters = [''self'', ''messages'', ''temperature'', ''max_tokens'']"

text \<open>The dict \<^verbatim>\<open>payload\<close> of \<^verbatim>\<open>completion\<close>: three fixed entries, then \<^verbatim>\<open>**kwargs\<close>.\<close>

definition completion_payload ::
  "string \<Rightarrow> 'f \<Rightarrow> int \<Rightarrow> (string \<times> 'f pyval) list \<Rightarrow> (string \<times> 'f pyval) list" where
  "completion_payload prompt temperature max_tokens kwargs =
     unpack_into kwargs
       [(''prompt'', PStr prompt),
        (''temperature'', PFloat temperature),
        (''n_predict'', PInt max_tokens)]"

text \<open>
  \<^verbatim>\<open>LlamaCPPLLM.completion\<close>.  A call with a rejected keyword raises at the binding and does
  nothing else.  In the body, the debug f-string evaluates \<^verbatim>\<open>response['content']\<close> before
  anything is logged, so a failing subscript raises there; the return statement evaluates
  the subscript again.
\<close>

definition completion ::
  "('f, 'w) transport \<Rightarrow> 'f decoder \<Rightarrow> ServerConfig \<Rightarrow> string \<Rightarrow> 'f \<Rightarrow> int
     \<Rightarrow> (string \<times> 'f pyval) list \<Rightarrow> ('f, 'w) io \<Rightarrow> (exn + 'f pyval) \<times> ('f, 'w) io" where
  "completion post loads config prompt temperature max_tokens kwargs s0 =
     (if rejected_keywords completion_parameters kwargs = [] then
        let payload = completion_payload prompt temperature max_tokens kwargs
        in case send_request post loads config payload COMPLETION_ENDPOINT s0 of
             (Inl e, s1) \<Rightarrow> (Inl e, s1)
           | (Inr response, s1) \<Rightarrow>
               (case getitem response ''content'' of
                  Inl e \<Rightarrow> (Inl e, s1)
                | Inr c \<Rightarrow> (getitem response ''content'',
                            logger DEBUG (Prompt_result prompt c) s1))
      else (Inl TypeError, s0))"

text \<open>
  A message of the chat format, \<^verbatim>\<open>dict[str, str]\<close>, as the Python value that goes into the
  payload, and the dict \<^verbatim>\<open>payload\<close> of \<^verbatim>\<open>chat_completion\<close>.
\<close>

definition message_val :: "(string \<times> string) list \<Rightarrow> 'f pyval" where
  "message_val m = PDict (map (\<lambda>(k, v). (k, PStr v)) m)"

definition chat_payload ::
  "(string \<times> string) list list \<Rightarrow> 'f \<Rightarrow> int \<Rightarrow> (string \<times> 'f pyval) list
     \<Rightarrow> (string \<times> 'f pyval) list" where
  "chat_payload messages temperature max_tokens kwargs =
     unpack_into kwargs
       [(''messages'', PList (map message_val messages)),
        (''temperature'', PFloat temperature),
        (''max_tokens'', PInt max_tokens)]"

text \<open>
  \<^verbatim>\<open>LlamaCPPLLM.chat_completion\<close>: the same binding, and the response goes back as it came.
\<close>

definition chat_completion ::
  "('f, 'w) transport \<Rightarrow> 'f decoder \<Rightarrow> ServerConfig \<Rightarrow> (string \<times> string) list list \<Rightarrow> 'f \<Rightarrow> int
     \<Rightarrow> (string \<times> 'f pyval) list \<Rightarrow> ('f, 'w) io \<Rightarrow> (exn + 'f pyval) \<times> ('f, 'w) io" where
  "chat_completion post loads config messages temperature max_tokens kwargs s0 =
     (if rejected_keywords chat_completion_parameters kwargs = [] then
        let payload = chat_payload messages temperature max_tokens kwargs;
            s1 = logger DEBUG (Sending_chat_prompt payload) s0
        in case send_request post loads config payload CHAT_ENDPOINT s1 of
             (Inl e, s2) \<Rightarrow> (Inl e, s2)
           | (Inr response, s2) \<Rightarrow> (Inr response, logger DEBUG (Chat_result response) s2)
      else (Inl TypeError, s0))"

section \<open>Stub environments\<close>

text \<open>
  A configuration, a start state, two JSON texts with a decoder that knows just these, and a server that
  gives the same outcome to every request and counts the requests it has seen.
\<close>

definition demo_config :: ServerConfig where
  "demo_config = \<lparr>server_address = ''localhost'', server_port = 8080, api_key = ''secret''\<rparr>"

definition fresh_io :: "(real, nat) io" where
  "fresh_io = \<lparr>posted = [], logged = [], world = 0\<rparr>"

definition hello_body :: string where
  \<open>hello_body = ''{"content":"hello"}''\<close>

definition error_body :: string where
  \<open>error_body = ''{"error":"boom"}''\<close>

definition stub_loads :: "real decoder" where
  "stub_loads b =
     (if b = hello_body then Some (PDict [(''content'', PStr ''hello'')])
      else if b = error_body then Some (PDict [(''error'', PStr ''boom'')])
      else None)"

definition stub_server :: "post_outcome \<Rightarrow> (real, nat) transport" where
  "stub_server out req n = (out, Suc n)"

section \<open>Dictionaries\<close>

lemma map_of_setitem: "map_of (setitem k v d) = (map_of d)(k \<mapsto> v)"
  by (induction d) auto

lemma map_of_unpack_into:
  "distinct (map fst kwargs) \<Longrightarrow> map_of (unpack_into kwargs d) = map_of d ++ map_of kwargs"
proof (induction kwargs arbitrary: d)
  case Nil
  then show ?case by (simp add: unpack_into_def)
next
  case (Cons e kwargs)
  obtain k v where e: "e = (k, v)" by (cases e)
  from Cons.prems e have fresh: "map_of kwargs k = None" and dist: "distinct (map fst kwargs)"
    by (auto simp: map_of_eq_None_iff)
  have "map_of (unpack_into (e # kwargs) d) = map_of (unpack_into kwargs (setitem k v d))"
    by (simp add: unpack_into_def e)
  also have "\<dots> = (map_of d)(k \<mapsto> v) ++ map_of kwargs"
    by (simp only: Cons.IH [OF dist] map_of_setitem)
  also have "\<dots> = map_of d ++ map_of (e # kwargs)"
    using fresh by (auto simp: e map_add_def fun_eq_iff split: option.splits)
  finally show ?case .
qed

section \<open>The request routine\<close>

text \<open>The ways through \<open>send_request\<close>, each with its final state.\<close>

lemma send_request_refused:
  assumes "post \<lparr>url = server_url config ep, headers = request_headers config, json = payload\<rparr> (world s)
             = (Raises (RequestException c), w)"
  shows "send_request post loads config payload ep s =
           (Inr PNone,
            s\<lparr>posted := posted s @ [\<lparr>url = server_url config ep, headers = request_headers config, json = payload\<rparr>],
              logged := logged s @
                [(INFO, Sending_request (server_url config ep)),
                 (DEBUG, Raw_request_content payload),
                 (DEBUG, Raw_request_header (request_headers config)),
                 (ERROR, Received_error (RequestException c))],
              world := w\<rparr>)"
  using assms by (simp add: send_request_def requests_post_def logger_def Let_def)

lemma send_request_answered:
  assumes "post \<lparr>url = server_url config ep, headers = request_headers config, json = payload\<rparr> (world s)
             = (Returns r, w)"
  shows "send_request post loads config payload ep s =
           (if content r \<noteq> [] then Response_json loads r else Inr PNone,
            s\<lparr>posted := posted s @ [\<lparr>url = server_url config ep, headers = request_headers config, json = payload\<rparr>],
              logged := logged s @
                [(INFO, Sending_request (server_url config ep)),
                 (DEBUG, Raw_request_content payload),
                 (DEBUG, Raw_request_header (request_headers config)),
                 (if 400 \<le> status_code r \<and> status_code r < 600
                  then (ERROR, Received_error (RequestException ''HTTPError''))
                  else (INFO, Server_response r))],
              world := w\<rparr>)"
  using assms
  by (simp add: send_request_def requests_post_def logger_def Let_def raise_for_status_def)

lemma send_request_posted:
  "posted (snd (send_request post loads config payload ep s)) =
     posted s @ [\<lparr>url = server_url config ep, headers = request_headers config, json = payload\<rparr>]"
  by (simp add: send_request_def requests_post_def logger_def Let_def raise_for_status_def
           split: prod.splits post_outcome.splits exn.splits sum.splits)

lemma send_request_result:
  "fst (send_request post loads config payload ep s) =
     (case fst (post \<lparr>url = server_url config ep, headers = request_headers config, json = payload\<rparr> (world s)) of
        Raises e \<Rightarrow> (case e of RequestException c \<Rightarrow> Inr PNone | _ \<Rightarrow> Inl e)
      | Returns r \<Rightarrow> (if content r \<noteq> [] then Response_json loads r else Inr PNone))"
  by (simp add: send_request_def requests_post_def logger_def Let_def raise_for_status_def
           split: prod.splits post_outcome.splits exn.splits sum.splits)

lemma rejected_keywords_Nil: "rejected_keywords params [] = []"
  by (simp add: rejected_keywords_def)

lemma accepted_keyword:
  "rejected_keywords params kwargs = [] \<Longrightarrow> k \<in> set params \<Longrightarrow> map_of kwargs k = None"
  by (auto simp: rejected_keywords_def filter_empty_conv map_of_eq_None_iff)

lemma completion_rejected:
  "rejected_keywords completion_parameters kwargs \<noteq> [] \<Longrightarrow>
     completion post loads config prompt t m kwargs s = (Inl TypeError, s)"
  by (simp add: completion_def)

lemma chat_completion_rejected:
  "rejected_keywords chat_completion_parameters kwargs \<noteq> [] \<Longrightarrow>
     chat_completion post loads config msgs t m kwargs s = (Inl TypeError, s)"
  by (simp add: chat_completion_def)

lemma completion_result:
  "rejected_keywords completion_parameters kwargs = [] \<Longrightarrow>
   fst (completion post loads config prompt t m kwargs s) =
     (case fst (send_request post loads config (completion_payload prompt t m kwargs) COMPLETION_ENDPOINT s) of
        Inl e \<Rightarrow> Inl e
      | Inr v \<Rightarrow> getitem v ''content'')"
  by (simp add: completion_def Let_def split: prod.splits sum.splits)

lemma chat_completion_result:
  "rejected_keywords chat_completion_parameters kwargs = [] \<Longrightarrow>
   fst (chat_completion post loads config msgs t m kwargs s) =
     fst (send_request post loads config (chat_payload msgs t m kwargs) CHAT_ENDPOINT
            (logger DEBUG (Sending_chat_prompt (chat_payload msgs t m kwargs)) s))"
  by (simp add: chat_completion_def Let_def split: prod.splits sum.splits)

lemma world_logger: "world (logger lv m s) = world s" by (simp add: logger_def)
lemma posted_logger: "posted (logger lv m s) = posted s" by (simp add: logger_def)

section \<open>What the public calls send\<close>

lemma completion_posted:
  assumes "rejected_keywords completion_parameters kwargs = []"
  shows "posted (snd (completion post loads config prompt t m kwargs s)) =
     posted s @ [\<lparr>url = server_url config COMPLETION_ENDPOINT, headers = request_headers config,
                  json = completion_payload prompt t m kwargs\<rparr>]"
proof -
  let ?sr = "send_request post loads config (completion_payload prompt t m kwargs) COMPLETION_ENDPOINT s"
  have "posted (snd (completion post loads config prompt t m kwargs s)) = posted (snd ?sr)"
    using assms by (cases ?sr) (auto simp: completion_def Let_def posted_logger split: sum.splits)
  then show ?thesis by (simp only: send_request_posted)
qed

lemma chat_completion_posted:
  assumes "rejected_keywords chat_completion_parameters kwargs = []"
  shows "posted (snd (chat_completion post loads config msgs t m kwargs s)) =
     posted s @ [\<lparr>url = server_url config CHAT_ENDPOINT, headers = request_headers config,
                  json = chat_payload msgs t m kwargs\<rparr>]"
proof -
  let ?s1 = "logger DEBUG (Sending_chat_prompt (chat_payload msgs t m kwargs)) s"
  let ?sr = "send_request post loads config (chat_payload msgs t m kwargs) CHAT_ENDPOINT ?s1"
  have "posted (snd (chat_completion post loads config msgs t m kwargs s)) = posted (snd ?sr)"
    using assms
    by (cases ?sr) (auto simp: chat_completion_def Let_def posted_logger split: sum.splits)
  then show ?thesis by (simp only: send_request_posted posted_logger)
qed

lemma setitem_fresh: "k \<notin> fst ` set d \<Longrightarrow> setitem k v d = d @ [(k, v)]"
  by (induction d) auto

lemma unpack_into_fresh:
  "distinct (map fst kwargs) \<Longrightarrow> fst ` set kwargs \<inter> fst ` set d = {} \<Longrightarrow>
     unpack_into kwargs d = d @ kwargs"
proof (induction kwargs arbitrary: d)
  case Nil
  then show ?case by (simp add: unpack_into_def)
next
  case (Cons e kwargs)
  obtain k v where e: "e = (k, v)" by (cases e)
  from Cons.prems e have k: "k \<notin> fst ` set d" and dist: "distinct (map fst kwargs)"
    and disj: "fst ` set kwargs \<inter> fst ` set (d @ [(k, v)]) = {}"
    by auto
  have "unpack_into (e # kwargs) d = unpack_into kwargs (setitem k v d)"
    by (simp add: unpack_into_def e)
  also have "\<dots> = unpack_into kwargs (d @ [(k, v)])"
    by (simp only: setitem_fresh [OF k])
  also have "\<dots> = (d @ [(k, v)]) @ kwargs"
    by (rule Cons.IH [OF dist disj])
  finally show ?case by (simp add: e)
qed

lemma accepted_keys:
  "rejected_keywords params kwargs = [] \<Longrightarrow> fst ` set kwargs \<inter> set params = {}"
  by (auto simp: rejected_keywords_def filter_empty_conv)

text \<open>
  Claim C2 as stated fails: a call that passes \<^verbatim>\<open>prompt\<close> among the extra options is rejected
  at the binding, so nothing is posted and TypeError reaches the caller.
\<close>

theorem completion_rejects_prompt_keyword:
  "completion (stub_server (Returns \<lparr>status_code = 200, content = hello_body\<rparr>))
     stub_loads demo_config ''hi'' (7/10) 16 [(''prompt'', PStr ''x'')] fresh_io =
   (Inl TypeError, fresh_io)"
  by (simp add: completion_def rejected_keywords_def completion_parameters_def)

text \<open>
  Claim C2, as amended.  For extra options that the call accepts (no key is a parameter name)
  and whatever the outcome of the exchange, \<open>completion\<close> issues exactly one POST, to the path
  \<^verbatim>\<open>completion\<close> of the configured server, and the JSON body is the mapping with the keys
  \<^verbatim>\<open>prompt\<close>, \<^verbatim>\<open>temperature\<close>, \<^verbatim>\<open>n_predict\<close> overridden by the extra options; of the fixed
  keys only \<^verbatim>\<open>n_predict\<close> can be overridden, the entries of \<^verbatim>\<open>prompt\<close> and \<^verbatim>\<open>temperature\<close> are
  always the arguments.  A call whose extra options hold a parameter name raises TypeError
  and leaves the state as it was: nothing is posted.  The extra options are a Python dict, so
  their keys are distinct.
\<close>

theorem completion_posts_payload:
  assumes "distinct (map fst kwargs)"
  shows "(rejected_keywords completion_parameters kwargs = [] \<longrightarrow>
            posted (snd (completion post loads config prompt t m kwargs s)) =
              posted s @
              [\<lparr>url = ''http://'' @ server_address config @ '':'' @ str_int (server_port config)
                       @ ''/completion'',
                 headers = request_headers config,
                 json = completion_payload prompt t m kwargs\<rparr>]
          \<and> map_of (completion_payload prompt t m kwargs) =
                [''prompt'' \<mapsto> PStr prompt, ''temperature'' \<mapsto> PFloat t, ''n_predict'' \<mapsto> PInt m]
                  ++ map_of kwargs
          \<and> map_of (completion_payload prompt t m kwargs) ''prompt'' = Some (PStr prompt)
          \<and> map_of (completion_payload prompt t m kwargs) ''temperature'' = Some (PFloat t)
          \<and> map_of (completion_payload prompt t m kwargs) ''n_predict'' =
                (case map_of kwargs ''n_predict'' of None \<Rightarrow> Some (PInt m) | Some v \<Rightarrow> Some v))
       \<and> (rejected_keywords completion_parameters kwargs \<noteq> [] \<longrightarrow>
            completion post loads config prompt t m kwargs s = (Inl TypeError, s))"
proof (intro conjI impI)
  have body: "map_of (completion_payload prompt t m kwargs) =
                [''prompt'' \<mapsto> PStr prompt, ''temperature'' \<mapsto> PFloat t, ''n_predict'' \<mapsto> PInt m]
                  ++ map_of kwargs"
    unfolding completion_payload_def map_of_unpack_into [OF assms]
    by (rule arg_cong [where f = "\<lambda>f. f ++ map_of kwargs"]) (auto simp: fun_eq_iff)
  {
    assume ok: "rejected_keywords completion_parameters kwargs = []"
    show "posted (snd (completion post loads config prompt t m kwargs s)) =
              posted s @
              [\<lparr>url = ''http://'' @ server_address config @ '':'' @ str_int (server_port config)
                       @ ''/completion'',
                 headers = request_headers config,
                 json = completion_payload prompt t m kwargs\<rparr>]"
      by (simp add: completion_posted [OF ok] server_url_def COMPLETION_ENDPOINT_def)
    show "map_of (completion_payload prompt t m kwargs) =
                [''prompt'' \<mapsto> PStr prompt, ''temperature'' \<mapsto> PFloat t, ''n_predict'' \<mapsto> PInt m]
                  ++ map_of kwargs"
      by (rule body)
    have p: "map_of kwargs ''prompt'' = None" and q: "map_of kwargs ''temperature'' = None"
      by (rule accepted_keyword [OF ok], simp add: completion_parameters_def)+
    show "map_of (completion_payload prompt t m kwargs) ''prompt'' = Some (PStr prompt)"
      by (simp add: body map_add_def p)
    show "map_of (completion_payload prompt t m kwargs) ''temperature'' = Some (PFloat t)"
      by (simp add: body map_add_def q)
    show "map_of (completion_payload prompt t m kwargs) ''n_predict'' =
                (case map_of kwargs ''n_predict'' of None \<Rightarrow> Some (PInt m) | Some v \<Rightarrow> Some v)"
      by (simp add: body map_add_def split: option.splits)
  }
  {
    assume "rejected_keywords completion_parameters kwargs \<noteq> []"
    then show "completion post loads config prompt t m kwargs s = (Inl TypeError, s)"
      by (rule completion_rejected)
  }
qed

text \<open>
  An accepted call in which the extra option \<^verbatim>\<open>n_predict\<close> shadows the fixed value 16, and a
  rejected call that passes \<^verbatim>\<open>temperature\<close> among the extra options.
\<close>

theorem completion_posts_payload_witness:
  "posted (snd (completion (stub_server (Returns \<lparr>status_code = 200, content = hello_body\<rparr>))
                stub_loads demo_config ''hi'' (7/10) 16
                [(''n_predict'', PInt 5), (''top_k'', PInt 40)] fresh_io)) =
       [\<lparr>url = ''http://localhost:8080/completion'',
          headers = [(''accept'', ''application/json''), (''content-type'', ''application/json''),
                     (''Authorization'', ''Bearer secret'')],
          json = [(''prompt'', PStr ''hi''), (''temperature'', PFloat (7/10)),
                  (''n_predict'', PInt 5), (''top_k'', PInt 40)]\<rparr>]
   \<and> map_of (completion_payload ''hi'' (7/10 :: real) 16 [(''n_predict'', PInt 5), (''top_k'', PInt 40)])
         ''n_predict'' = Some (PInt 5)
   \<and> completion (stub_server (Returns \<lparr>status_code = 200, content = hello_body\<rparr>))
        stub_loads demo_config ''hi'' (7/10) 16 [(''temperature'', PFloat 1)] fresh_io =
      (Inl TypeError, fresh_io)"
proof -
  let ?post = "stub_server (Returns \<lparr>status_code = 200, content = hello_body\<rparr>)"
  have d: "distinct (map fst [(''n_predict'', PInt 5 :: real pyval), (''top_k'', PInt 40)])"
    and d': "distinct (map fst [(''temperature'', PFloat 1 :: real pyval)])"
    by simp_all
  have ok: "rejected_keywords completion_parameters
              [(''n_predict'', PInt 5 :: real pyval), (''top_k'', PInt 40)] = []"
    and no: "rejected_keywords completion_parameters [(''temperature'', PFloat 1 :: real pyval)] \<noteq> []"
    by (simp_all add: rejected_keywords_def completion_parameters_def)
  have "posted (snd (completion ?post stub_loads demo_config ''hi'' (7/10) 16
                [(''n_predict'', PInt 5), (''top_k'', PInt 40)] fresh_io)) =
       [\<lparr>url = ''http://localhost:8080/completion'',
          headers = [(''accept'', ''application/json''), (''content-type'', ''application/json''),
                     (''Authorization'', ''Bearer secret'')],
          json = [(''prompt'', PStr ''hi''), (''temperature'', PFloat (7/10)),
                  (''n_predict'', PInt 5), (''top_k'', PInt 40)]\<rparr>]
     \<and> map_of (completion_payload ''hi'' (7/10 :: real) 16 [(''n_predict'', PInt 5), (''top_k'', PInt 40)])
         ''n_predict'' = Some (PInt 5)"
    using ok completion_posts_payload [OF d, of ?post stub_loads demo_config "''hi''" "7/10" 16 fresh_io]
    by (simp add: demo_config_def fresh_io_def str_int_def request_headers_def
          completion_payload_def unpack_into_def)
  moreover
  have "completion ?post stub_loads demo_config ''hi'' (7/10) 16 [(''temperature'', PFloat 1)] fresh_io =
          (Inl TypeError, fresh_io)"
    using no completion_posts_payload [OF d', of ?post stub_loads demo_config "''hi''" "7/10" 16 fresh_io]
    by simp
  ultimately show ?thesis by simp
qed

text \<open>
  Claim C3 as stated fails: the fixed keys of the chat payload are all parameter names, so a
  call that passes one of them among the extra options, here \<^verbatim>\<open>max_tokens\<close>, is rejected at
  the binding: nothing is posted and TypeError reaches the caller.
\<close>

theorem chat_completion_rejects_max_tokens_keyword:
  "chat_completion (stub_server (Returns \<lparr>status_code = 200, content = hello_body\<rparr>))
     stub_loads demo_config [[(''role'', ''user''), (''content'', ''hi'')]] (7/10) 16
     [(''max_tokens'', PInt 5)] fresh_io =
   (Inl TypeError, fresh_io)"
  by (simp add: chat_completion_def rejected_keywords_def chat_completion_parameters_def)

text \<open>
  Claim C3, as amended.  For extra options that the call accepts, \<open>chat_completion\<close> issues
  exactly one POST, to the path \<^verbatim>\<open>v1/chat/completions\<close>, and the JSON body is the three entries
  \<^verbatim>\<open>messages\<close>, \<^verbatim>\<open>temperature\<close>, \<^verbatim>\<open>max_tokens\<close> followed by the extra options: no key collides,
  since the three fixed keys are parameter names.  A call whose extra options hold a parameter
  name raises TypeError and leaves the state as it was: nothing is posted.
\<close>

theorem chat_completion_posts_payload:
  assumes "distinct (map fst kwargs)"
  shows "(rejected_keywords chat_completion_parameters kwargs = [] \<longrightarrow>
            posted (snd (chat_completion post loads config messages t m kwargs s)) =
              posted s @
              [\<lparr>url = ''http://'' @ server_address config @ '':'' @ str_int (server_port config)
                       @ ''/v1/chat/completions'',
                 headers = request_headers config,
                 json = chat_payload messages t m kwargs\<rparr>]
          \<and> chat_payload messages t m kwargs =
                [(''messages'', PList (map message_val messages)),
                 (''temperature'', PFloat t), (''max_tokens'', PInt m)] @ kwargs
          \<and> map_of (chat_payload messages t m kwargs) =
                [''messages'' \<mapsto> PList (map message_val messages),
                 ''temperature'' \<mapsto> PFloat t, ''max_tokens'' \<mapsto> PInt m]
                  ++ map_of kwargs)
       \<and> (rejected_keywords chat_completion_parameters kwargs \<noteq> [] \<longrightarrow>
            chat_completion post loads config messages t m kwargs s = (Inl TypeError, s))"
proof (intro conjI impI)
  {
    assume ok: "rejected_keywords chat_completion_parameters kwargs = []"
    show "posted (snd (chat_completion post loads config messages t m kwargs s)) =
              posted s @
              [\<lparr>url = ''http://'' @ server_address config @ '':'' @ str_int (server_port config)
                       @ ''/v1/chat/completions'',
                 headers = request_headers config,
                 json = chat_payload messages t m kwargs\<rparr>]"
      by (simp add: chat_completion_posted [OF ok] server_url_def CHAT_ENDPOINT_def)
    from accepted_keys [OF ok]
    have "fst ` set kwargs \<inter>
            fst ` set [(''messages'', PList (map message_val messages)),
                       (''temperature'', PFloat t), (''max_tokens'', PInt m)] = {}"
      by (auto simp: chat_completion_parameters_def)
    then show "chat_payload messages t m kwargs =
                [(''messages'', PList (map message_val messages)),
                 (''temperature'', PFloat t), (''max_tokens'', PInt m)] @ kwargs"
      unfolding chat_payload_def by (rule unpack_into_fresh [OF assms])
    show "map_of (chat_payload messages t m kwargs) =
                [''messages'' \<mapsto> PList (map message_val messages),
                 ''temperature'' \<mapsto> PFloat t, ''max_tokens'' \<mapsto> PInt m]
                  ++ map_of kwargs"
      unfolding chat_payload_def map_of_unpack_into [OF assms]
      by (rule arg_cong [where f = "\<lambda>f. f ++ map_of kwargs"]) (auto simp: fun_eq_iff)
  }
  {
    assume "rejected_keywords chat_completion_parameters kwargs \<noteq> []"
    then show "chat_completion post loads config messages t m kwargs s = (Inl TypeError, s)"
      by (rule chat_completion_rejected)
  }
qed

text \<open>
  An accepted call with one extra option, and a rejected call that passes \<^verbatim>\<open>temperature\<close>
  among the extra options.
\<close>

theorem chat_completion_posts_payload_witness:
  "posted (snd (chat_completion (stub_server (Returns \<lparr>status_code = 200, content = hello_body\<rparr>))
                stub_loads demo_config [[(''role'', ''user''), (''content'', ''hi'')]] (7/10) 16
                [(''stop'', PList [PStr ''END''])] fresh_io)) =
       [\<lparr>url = ''http://localhost:8080/v1/chat/completions'',
          headers = [(''accept'', ''application/json''), (''content-type'', ''application/json''),
                     (''Authorization'', ''Bearer secret'')],
          json = [(''messages'', PList [PDict [(''role'', PStr ''user''), (''content'', PStr ''hi'')]]),
                  (''temperature'', PFloat (7/10)), (''max_tokens'', PInt 16),
                  (''stop'', PList [PStr ''END''])]\<rparr>]
   \<and> chat_completion (stub_server (Returns \<lparr>status_code = 200, content = hello_body\<rparr>))
        stub_loads demo_config [[(''role'', ''user''), (''content'', ''hi'')]] (7/10) 16
        [(''temperature'', PFloat 1)] fresh_io =
      (Inl TypeError, fresh_io)"
proof -
  let ?post = "stub_server (Returns \<lparr>status_code = 200, content = hello_body\<rparr>)"
  let ?msgs = "[[(''role'', ''user''), (''content'', ''hi'')]]"
  have d: "distinct (map fst [(''stop'', PList [PStr ''END''] :: real pyval)])"
    and d': "distinct (map fst [(''temperature'', PFloat 1 :: real pyval)])"
    by simp_all
  have ok: "rejected_keywords chat_completion_parameters
              [(''stop'', PList [PStr ''END''] :: real pyval)] = []"
    and no: "rejected_keywords chat_completion_parameters
              [(''temperature'', PFloat 1 :: real pyval)] \<noteq> []"
    by (simp_all add: rejected_keywords_def chat_completion_parameters_def)
  have "posted (snd (chat_completion ?post stub_loads demo_config ?msgs (7/10) 16
                [(''stop'', PList [PStr ''END''])] fresh_io)) =
       [\<lparr>url = ''http://localhost:8080/v1/chat/completions'',
          headers = [(''accept'', ''application/json''), (''content-type'', ''application/json''),
                     (''Authorization'', ''Bearer secret'')],
          json = [(''messages'', PList [PDict [(''role'', PStr ''user''), (''content'', PStr ''hi'')]]),
                  (''temperature'', PFloat (7/10)), (''max_tokens'', PInt 16),
                  (''stop'', PList [PStr ''END''])]\<rparr>]"
    using ok chat_completion_posts_payload [OF d, of ?post stub_loads demo_config ?msgs "7/10" 16 fresh_io]
    by (simp add: demo_config_def fresh_io_def str_int_def request_headers_def message_val_def)
  moreover
  have "chat_completion ?post stub_loads demo_config ?msgs (7/10) 16 [(''temperature'', PFloat 1)]
          fresh_io = (Inl TypeError, fresh_io)"
    using no chat_completion_posts_payload [OF d', of ?post stub_loads demo_config ?msgs "7/10" 16 fresh_io]
    by simp
  ultimately show ?thesis by simp
qed

text \<open>
  Claim C4.  Either public call issues one request when its extra options are accepted and
  none when they are rejected at the binding.  The request carries exactly the three headers
  \<^verbatim>\<open>accept: application/json\<close>, \<^verbatim>\<open>content-type: application/json\<close> and
  \<^verbatim>\<open>Authorization: Bearer <api_key>\<close> with the configured key as it is, and goes to the URL
  \<^verbatim>\<open>http://<server_address>:<server_port>/<endpoint>\<close>.
\<close>

theorem requests_carry_headers_and_url:
  "map (\<lambda>q. (url q, headers q))
       (drop (length (posted s)) (posted (snd (completion post loads config prompt t m kwargs s)))) =
     (if rejected_keywords completion_parameters kwargs = [] then
        [(''http://'' @ server_address config @ '':'' @ str_int (server_port config)
            @ ''/'' @ COMPLETION_ENDPOINT,
          [(''accept'', ''application/json''), (''content-type'', ''application/json''),
           (''Authorization'', ''Bearer '' @ api_key config)])]
      else [])
   \<and> map (\<lambda>q. (url q, headers q))
       (drop (length (posted s)) (posted (snd (chat_completion post loads config messages t m kwargs s)))) =
     (if rejected_keywords chat_completion_parameters kwargs = [] then
        [(''http://'' @ server_address config @ '':'' @ str_int (server_port config)
            @ ''/'' @ CHAT_ENDPOINT,
          [(''accept'', ''application/json''), (''content-type'', ''application/json''),
           (''Authorization'', ''Bearer '' @ api_key config)])]
      else [])"
  by (simp add: completion_posted chat_completion_posted completion_rejected
        chat_completion_rejected server_url_def request_headers_def)

section \<open>What the public calls return\<close>

text \<open>
  Claim C9.  When \<^verbatim>\<open>requests.post\<close> returns a response, what \<open>send_request\<close> gives back depends
  on the body of that response alone: None for an empty body, the decoding of the body for a
  non-empty one (the decoder's error where the body is not JSON).  The status code does not
  occur on the right-hand side: a 4xx or 5xx response with a body is decoded and returned like
  any other, and an empty body gives None under every status.
\<close>

theorem send_request_decided_by_body:
  assumes "fst (post \<lparr>url = server_url config api_endpoint, headers = request_headers config,
                       json = payload\<rparr> (world s)) = Returns r"
  shows "fst (send_request post loads config payload api_endpoint s) =
           (if content r = [] then Inr PNone
            else case loads (content r) of None \<Rightarrow> Inl JSONDecodeError | Some v \<Rightarrow> Inr v)"
  using assms by (simp add: send_request_result Response_json_def)

text \<open>
  A response with status 500 and a JSON body: the decoded body comes back.
\<close>

theorem send_request_decided_by_body_witness:
  "fst (stub_server (Returns \<lparr>status_code = 500, content = error_body\<rparr>)
         \<lparr>url = server_url demo_config CHAT_ENDPOINT, headers = request_headers demo_config,
           json = []\<rparr> (world fresh_io)) = Returns \<lparr>status_code = 500, content = error_body\<rparr>
   \<and> fst (send_request (stub_server (Returns \<lparr>status_code = 500, content = error_body\<rparr>))
            stub_loads demo_config [] CHAT_ENDPOINT fresh_io) = Inr (PDict [(''error'', PStr ''boom'')])"
proof -
  have h: "fst (stub_server (Returns \<lparr>status_code = 500, content = error_body\<rparr>)
         \<lparr>url = server_url demo_config CHAT_ENDPOINT, headers = request_headers demo_config,
           json = []\<rparr> (world fresh_io)) = Returns \<lparr>status_code = 500, content = error_body\<rparr>"
    by (simp add: stub_server_def)
  show ?thesis
    using h send_request_decided_by_body
        [where post = "stub_server (Returns \<lparr>status_code = 500, content = error_body\<rparr>)"
           and config = demo_config and api_endpoint = CHAT_ENDPOINT and payload = "[]"
           and s = fresh_io and r = "\<lparr>status_code = 500, content = error_body\<rparr>"
           and loads = stub_loads, OF h]
    by (simp add: stub_loads_def error_body_def hello_body_def)
qed

text \<open>
  Claim C6.  When the server answers the request of an accepted call of \<open>completion\<close> (no
  extra option names a parameter) with a successful status
  and a non-empty body that decodes to a JSON object holding the key \<^verbatim>\<open>content\<close>, the call
  returns exactly the value stored under that key.
\<close>

theorem completion_returns_content:
  assumes "rejected_keywords completion_parameters kwargs = []"
    and "fst (post \<lparr>url = server_url config COMPLETION_ENDPOINT, headers = request_headers config,
                       json = completion_payload prompt t m kwargs\<rparr> (world s)) = Returns r"
    and "200 \<le> status_code r" and "status_code r < 300"
    and "content r \<noteq> []"
    and "loads (content r) = Some (PDict d)"
    and "map_of d ''content'' = Some v"
  shows "fst (completion post loads config prompt t m kwargs s) = Inr v"
  using assms by (simp add: completion_result send_request_result Response_json_def)

text \<open>
  The body \<^verbatim>\<open>{"content":"hello"}\<close> with status 200 yields the string \<^verbatim>\<open>hello\<close>.
\<close>

theorem completion_returns_content_witness:
  "fst (completion (stub_server (Returns \<lparr>status_code = 200, content = hello_body\<rparr>))
          stub_loads demo_config ''hi'' (7/10) 16 [] fresh_io) = Inr (PStr ''hello'')"
proof -
  let ?r = "\<lparr>status_code = 200, content = hello_body\<rparr>"
  have h1: "fst (stub_server (Returns ?r)
              \<lparr>url = server_url demo_config COMPLETION_ENDPOINT, headers = request_headers demo_config,
                json = completion_payload ''hi'' (7/10) 16 []\<rparr> (world fresh_io)) = Returns ?r"
    by (simp add: stub_server_def)
  have h2: "200 \<le> status_code ?r" and h3: "status_code ?r < 300" by simp_all
  have h4: "content ?r \<noteq> []" by (simp add: hello_body_def)
  have h5: "stub_loads (content ?r) = Some (PDict [(''content'', PStr ''hello'')])"
    by (simp add: stub_loads_def)
  have h6: "map_of [(''content'', PStr ''hello'' :: real pyval)] ''content'' = Some (PStr ''hello'')"
    by simp
  have h0: "rejected_keywords completion_parameters ([] :: (string \<times> real pyval) list) = []"
    by (rule rejected_keywords_Nil)
  show ?thesis
    by (rule completion_returns_content
        [where post = "stub_server (Returns ?r)" and config = demo_config and s = fresh_io
           and r = ?r and loads = stub_loads, OF h0 h1 h2 h3 h4 h5 h6])
qed



text \<open>
  Claim C10.  Against a server whose answer is a function of the request alone, whatever the
  state of the world, a second call of \<open>completion\<close> with the same inputs, made in the state
  that the first call left behind (one more request posted, more lines logged, the world
  moved on), returns the same value as the first.
\<close>

theorem completion_deterministic:
  assumes "\<forall>req w w'. fst (post req w) = fst (post req w')"
  shows "fst (completion post loads config prompt t m kwargs
                (snd (completion post loads config prompt t m kwargs s))) =
         fst (completion post loads config prompt t m kwargs s)"
proof -
  let ?req = "\<lparr>url = server_url config COMPLETION_ENDPOINT, headers = request_headers config,
                 json = completion_payload prompt t m kwargs\<rparr>"
  let ?s' = "snd (completion post loads config prompt t m kwargs s)"
  from assms have same: "fst (post ?req (world ?s')) = fst (post ?req (world s))"
    by blast
  show ?thesis
  proof (cases "rejected_keywords completion_parameters kwargs = []")
    case True
    show ?thesis
      by (simp only: completion_result [OF True] send_request_result same)
  next
    case False
    then show ?thesis by (simp add: completion_rejected)
  qed
qed

text \<open>
  The stub server counts its requests, so the second call runs in another world.
\<close>

theorem completion_deterministic_witness:
  "(\<forall>req w w'. fst (stub_server (Returns \<lparr>status_code = 200, content = hello_body\<rparr>) req w)
                  = fst (stub_server (Returns \<lparr>status_code = 200, content = hello_body\<rparr>) req w'))
   \<and> world (snd (completion (stub_server (Returns \<lparr>status_code = 200, content = hello_body\<rparr>))
                stub_loads demo_config ''hi'' (7/10) 16 [] fresh_io)) \<noteq> world fresh_io
   \<and> fst (completion (stub_server (Returns \<lparr>status_code = 200, content = hello_body\<rparr>))
           stub_loads demo_config ''hi'' (7/10) 16 []
           (snd (completion (stub_server (Returns \<lparr>status_code = 200, content = hello_body\<rparr>))
                   stub_loads demo_config ''hi'' (7/10) 16 [] fresh_io))) = Inr (PStr ''hello'')"
proof -
  let ?post = "stub_server (Returns \<lparr>status_code = 200, content = hello_body\<rparr>)"
  have h: "\<forall>req w w'. fst (?post req w) = fst (?post req w')"
    by (simp add: stub_server_def)
  have once: "completion ?post stub_loads demo_config ''hi'' (7/10) 16 [] fresh_io =
      (Inr (PStr ''hello''),
       \<lparr>posted = [\<lparr>url = server_url demo_config COMPLETION_ENDPOINT,
                    headers = request_headers demo_config,
                    json = completion_payload ''hi'' (7/10) 16 []\<rparr>],
         logged = [(INFO, Sending_request (server_url demo_config COMPLETION_ENDPOINT)),
                   (DEBUG, Raw_request_content (completion_payload ''hi'' (7/10) 16 [])),
                   (DEBUG, Raw_request_header (request_headers demo_config)),
                   (INFO, Server_response \<lparr>status_code = 200, content = hello_body\<rparr>),
                   (DEBUG, Prompt_result ''hi'' (PStr ''hello''))],
         world = 1\<rparr>)"
    by (simp add: completion_def send_request_def requests_post_def logger_def Let_def
          raise_for_status_def Response_json_def stub_server_def stub_loads_def hello_body_def
          fresh_io_def rejected_keywords_Nil)
  have start: "world fresh_io = 0"
    by (simp add: fresh_io_def)
  show ?thesis
    using h completion_deterministic [where post = ?post, OF h, of stub_loads demo_config "''hi''"
        "7/10" 16 "[]" fresh_io]
    by (simp add: once start)
qed

section \<open>Failures\<close>

lemma send_request_logged_error:
  assumes "fst (post \<lparr>url = server_url config ep, headers = request_headers config, json = payload\<rparr>
                  (world s)) = Returns r"
    and "400 \<le> status_code r" and "status_code r < 600"
  shows "logged (snd (send_request post loads config payload ep s)) =
           logged s @
             [(INFO, Sending_request (server_url config ep)),
              (DEBUG, Raw_request_content payload),
              (DEBUG, Raw_request_header (request_headers config)),
              (ERROR, Received_error (RequestException ''HTTPError''))]"
proof -
  obtain w where "post \<lparr>url = server_url config ep, headers = request_headers config, json = payload\<rparr>
                    (world s) = (Returns r, w)"
    using assms(1) by (metis prod.collapse)
  then show ?thesis using assms(2,3) by (simp add: send_request_answered)
qed

lemma completion_logged:
  "rejected_keywords completion_parameters kwargs = [] \<Longrightarrow>
   \<exists>rest. logged (snd (completion post loads config prompt t m kwargs s)) =
     logged (snd (send_request post loads config (completion_payload prompt t m kwargs)
                    COMPLETION_ENDPOINT s)) @ rest"
  by (cases "send_request post loads config (completion_payload prompt t m kwargs) COMPLETION_ENDPOINT s")
     (auto simp: completion_def Let_def logger_def split: sum.splits)

lemma chat_completion_logged:
  "rejected_keywords chat_completion_parameters kwargs = [] \<Longrightarrow>
   \<exists>rest. logged (snd (chat_completion post loads config msgs t m kwargs s)) =
     logged (snd (send_request post loads config (chat_payload msgs t m kwargs) CHAT_ENDPOINT
                    (logger DEBUG (Sending_chat_prompt (chat_payload msgs t m kwargs)) s))) @ rest"
  by (cases "send_request post loads config (chat_payload msgs t m kwargs) CHAT_ENDPOINT
                    (logger DEBUG (Sending_chat_prompt (chat_payload msgs t m kwargs)) s)")
     (auto simp: chat_completion_def Let_def logger_def split: sum.splits)

text \<open>
  Claim C1 as stated fails: on status 500 with a JSON body \<open>chat_completion\<close> returns the
  decoded body, whereas it returns None when the connection is refused.
\<close>

theorem http_error_body_is_returned:
  "fst (chat_completion (stub_server (Returns \<lparr>status_code = 500, content = error_body\<rparr>))
          stub_loads demo_config [[(''role'', ''user''), (''content'', ''hi'')]] (7/10) 16 []
          fresh_io) = Inr (PDict [(''error'', PStr ''boom'')])
   \<and> fst (chat_completion (stub_server (Raises (RequestException ''ConnectionError'')))
          stub_loads demo_config [[(''role'', ''user''), (''content'', ''hi'')]] (7/10) 16 []
          fresh_io) = Inr PNone"
  by (simp add: chat_completion_result send_request_result Response_json_def stub_server_def
        stub_loads_def error_body_def hello_body_def rejected_keywords_Nil)

text \<open>
  Claim C1, as amended.  When the server answers an accepted call with a 4xx or 5xx status,
  the failure is logged at error level, but the result follows the body of the response and
  not the transport-error case.  \<open>chat_completion\<close> returns None when the body is empty and the
  decoded value when the non-empty body is valid JSON.  \<open>completion\<close> returns the value under
  \<^verbatim>\<open>content\<close> when the body decodes to a JSON object that holds this key.  The two calls are
  independent: each part speaks of the response to its own request.
\<close>

theorem http_error_status_follows_body:
  "(rejected_keywords chat_completion_parameters kwargs = []
      \<and> fst (post \<lparr>url = server_url config CHAT_ENDPOINT, headers = request_headers config,
                     json = chat_payload messages t m kwargs\<rparr> (world s)) = Returns r
      \<and> 400 \<le> status_code r \<and> status_code r < 600
    \<longrightarrow> (ERROR, Received_error (RequestException ''HTTPError''))
            \<in> set (drop (length (logged s))
                      (logged (snd (chat_completion post loads config messages t m kwargs s))))
        \<and> (content r = []
             \<longrightarrow> fst (chat_completion post loads config messages t m kwargs s) = Inr PNone)
        \<and> (content r \<noteq> [] \<and> loads (content r) = Some v
             \<longrightarrow> fst (chat_completion post loads config messages t m kwargs s) = Inr v))
   \<and> (rejected_keywords completion_parameters kwargs' = []
      \<and> fst (post' \<lparr>url = server_url config' COMPLETION_ENDPOINT, headers = request_headers config',
                      json = completion_payload prompt t' m' kwargs'\<rparr> (world s')) = Returns r'
      \<and> 400 \<le> status_code r' \<and> status_code r' < 600
    \<longrightarrow> (ERROR, Received_error (RequestException ''HTTPError''))
            \<in> set (drop (length (logged s'))
                      (logged (snd (completion post' loads' config' prompt t' m' kwargs' s'))))
        \<and> (content r' \<noteq> [] \<and> loads' (content r') = Some (PDict d) \<and> map_of d ''content'' = Some x
             \<longrightarrow> fst (completion post' loads' config' prompt t' m' kwargs' s') = Inr x))"
proof (intro conjI impI; (elim conjE)?)
  let ?s1 = "logger DEBUG (Sending_chat_prompt (chat_payload messages t m kwargs)) s"
  let ?chat = "\<lparr>url = server_url config CHAT_ENDPOINT, headers = request_headers config,
                  json = chat_payload messages t m kwargs\<rparr>"
  let ?comp = "\<lparr>url = server_url config' COMPLETION_ENDPOINT, headers = request_headers config',
                  json = completion_payload prompt t' m' kwargs'\<rparr>"
  {
    assume ok: "rejected_keywords chat_completion_parameters kwargs = []"
      and ans: "fst (post ?chat (world s)) = Returns r"
      and st: "400 \<le> status_code r" "status_code r < 600"
    from ans have "fst (post ?chat (world ?s1)) = Returns r"
      by (simp add: world_logger)
    then have "logged (snd (send_request post loads config (chat_payload messages t m kwargs)
                              CHAT_ENDPOINT ?s1)) =
        logged ?s1 @
          [(INFO, Sending_request (server_url config CHAT_ENDPOINT)),
           (DEBUG, Raw_request_content (chat_payload messages t m kwargs)),
           (DEBUG, Raw_request_header (request_headers config)),
           (ERROR, Received_error (RequestException ''HTTPError''))]"
      using st by (simp add: send_request_logged_error)
    with chat_completion_logged [OF ok, of post loads config messages t m s]
    obtain rest where "logged (snd (chat_completion post loads config messages t m kwargs s)) =
        logged ?s1 @
          [(INFO, Sending_request (server_url config CHAT_ENDPOINT)),
           (DEBUG, Raw_request_content (chat_payload messages t m kwargs)),
           (DEBUG, Raw_request_header (request_headers config)),
           (ERROR, Received_error (RequestException ''HTTPError''))] @ rest"
      by auto
    then show "(ERROR, Received_error (RequestException ''HTTPError''))
            \<in> set (drop (length (logged s))
                      (logged (snd (chat_completion post loads config messages t m kwargs s))))"
      by (simp add: logger_def)
  }
  {
    assume ok: "rejected_keywords chat_completion_parameters kwargs = []"
      and ans: "fst (post ?chat (world s)) = Returns r"
      and "content r = []"
    then show "fst (chat_completion post loads config messages t m kwargs s) = Inr PNone"
      by (simp add: chat_completion_result send_request_result world_logger)
  }
  {
    assume ok: "rejected_keywords chat_completion_parameters kwargs = []"
      and ans: "fst (post ?chat (world s)) = Returns r"
      and "content r \<noteq> []" "loads (content r) = Some v"
    then show "fst (chat_completion post loads config messages t m kwargs s) = Inr v"
      by (simp add: chat_completion_result send_request_result Response_json_def world_logger)
  }
  {
    assume ok: "rejected_keywords completion_parameters kwargs' = []"
      and ans: "fst (post' ?comp (world s')) = Returns r'"
      and st: "400 \<le> status_code r'" "status_code r' < 600"
    from ans st
    have "logged (snd (send_request post' loads' config' (completion_payload prompt t' m' kwargs')
                         COMPLETION_ENDPOINT s')) =
        logged s' @
          [(INFO, Sending_request (server_url config' COMPLETION_ENDPOINT)),
           (DEBUG, Raw_request_content (completion_payload prompt t' m' kwargs')),
           (DEBUG, Raw_request_header (request_headers config')),
           (ERROR, Received_error (RequestException ''HTTPError''))]"
      by (simp add: send_request_logged_error)
    with completion_logged [OF ok, of post' loads' config' prompt t' m' s']
    obtain rest where "logged (snd (completion post' loads' config' prompt t' m' kwargs' s')) =
        logged s' @
          [(INFO, Sending_request (server_url config' COMPLETION_ENDPOINT)),
           (DEBUG, Raw_request_content (completion_payload prompt t' m' kwargs')),
           (DEBUG, Raw_request_header (request_headers config')),
           (ERROR, Received_error (RequestException ''HTTPError''))] @ rest"
      by auto
    then show "(ERROR, Received_error (RequestException ''HTTPError''))
            \<in> set (drop (length (logged s'))
                      (logged (snd (completion post' loads' config' prompt t' m' kwargs' s'))))"
      by simp
  }
  {
    assume ok: "rejected_keywords completion_parameters kwargs' = []"
      and ans: "fst (post' ?comp (world s')) = Returns r'"
      and "content r' \<noteq> []" "loads' (content r') = Some (PDict d)" "map_of d ''content'' = Some x"
    then show "fst (completion post' loads' config' prompt t' m' kwargs' s') = Inr x"
      by (simp add: completion_result send_request_result Response_json_def)
  }
qed

text \<open>
  Status 500 on the chat endpoint, once with a JSON error body and once with an empty body,
  and status 500 on the completion endpoint with a body that holds \<^verbatim>\<open>content\<close>.
\<close>

theorem http_error_status_follows_body_witness:
  "(ERROR, Received_error (RequestException ''HTTPError''))
      \<in> set (logged (snd (chat_completion
                (stub_server (Returns \<lparr>status_code = 500, content = error_body\<rparr>))
                stub_loads demo_config [[(''role'', ''user''), (''content'', ''hi'')]] (7/10) 16 []
                fresh_io)))
   \<and> fst (chat_completion (stub_server (Returns \<lparr>status_code = 500, content = error_body\<rparr>))
          stub_loads demo_config [[(''role'', ''user''), (''content'', ''hi'')]] (7/10) 16 []
          fresh_io) = Inr (PDict [(''error'', PStr ''boom'')])
   \<and> fst (chat_completion (stub_server (Returns \<lparr>status_code = 500, content = []\<rparr>))
          stub_loads demo_config [[(''role'', ''user''), (''content'', ''hi'')]] (7/10) 16 []
          fresh_io) = Inr PNone
   \<and> (ERROR, Received_error (RequestException ''HTTPError''))
      \<in> set (logged (snd (completion
                (stub_server (Returns \<lparr>status_code = 500, content = hello_body\<rparr>))
                stub_loads demo_config ''hi'' (7/10) 16 [] fresh_io)))
   \<and> fst (completion (stub_server (Returns \<lparr>status_code = 500, content = hello_body\<rparr>))
          stub_loads demo_config ''hi'' (7/10) 16 [] fresh_io) = Inr (PStr ''hello'')"
proof -
  let ?msgs = "[[(''role'', ''user''), (''content'', ''hi'')]]"
  let ?err = "\<lparr>status_code = 500, content = error_body\<rparr>"
  let ?none = "\<lparr>status_code = 500, content = []\<rparr>"
  let ?full = "\<lparr>status_code = 500, content = hello_body\<rparr>"
  have empty_log: "logged fresh_io = []" by (simp add: fresh_io_def)
  have "(ERROR, Received_error (RequestException ''HTTPError''))
      \<in> set (logged (snd (chat_completion (stub_server (Returns ?err)) stub_loads demo_config
                ?msgs (7/10) 16 [] fresh_io)))
    \<and> fst (chat_completion (stub_server (Returns ?err)) stub_loads demo_config ?msgs (7/10) 16 []
          fresh_io) = Inr (PDict [(''error'', PStr ''boom'')])"
    using http_error_status_follows_body
      [where post = "stub_server (Returns ?err)" and r = ?err and config = demo_config
         and messages = ?msgs and t = "7/10" and m = 16 and kwargs = "[]"
         and s = fresh_io and loads = stub_loads and v = "PDict [(''error'', PStr ''boom'')]",
         THEN conjunct1]
    by (simp add: stub_server_def stub_loads_def error_body_def hello_body_def empty_log
          rejected_keywords_Nil)
  moreover
  have "fst (chat_completion (stub_server (Returns ?none)) stub_loads demo_config ?msgs (7/10) 16 []
          fresh_io) = Inr PNone"
    using http_error_status_follows_body
      [where post = "stub_server (Returns ?none)" and r = ?none and config = demo_config
         and messages = ?msgs and t = "7/10" and m = 16 and kwargs = "[]"
         and s = fresh_io and loads = stub_loads, THEN conjunct1]
    by (simp add: stub_server_def rejected_keywords_Nil)
  moreover
  have "(ERROR, Received_error (RequestException ''HTTPError''))
      \<in> set (logged (snd (completion (stub_server (Returns ?full)) stub_loads demo_config
                ''hi'' (7/10) 16 [] fresh_io)))
    \<and> fst (completion (stub_server (Returns ?full)) stub_loads demo_config ''hi'' (7/10) 16 []
          fresh_io) = Inr (PStr ''hello'')"
    using http_error_status_follows_body
      [where post' = "stub_server (Returns ?full)" and r' = ?full and config' = demo_config
         and prompt = "''hi''" and t' = "7/10" and m' = 16 and kwargs' = "[]"
         and s' = fresh_io and loads' = stub_loads and d = "[(''content'', PStr ''hello'')]"
         and x = "PStr ''hello''", THEN conjunct2]
    by (simp add: stub_server_def stub_loads_def hello_body_def empty_log rejected_keywords_Nil)
  ultimately show ?thesis by simp
qed

text \<open>
  Claim C5 at a refused connection: \<open>send_request\<close> catches the error, logs it and gives
  None, on which \<open>chat_completion\<close> returns None, but \<open>completion\<close> subscripts the None and
  raises TypeError.
\<close>

theorem completion_unreachable_server_raises:
  "fst (completion (stub_server (Raises (RequestException ''ConnectionError'')))
          stub_loads demo_config ''hi'' (7/10) 16 [] fresh_io) = Inl TypeError
   \<and> (ERROR, Received_error (RequestException ''ConnectionError''))
         \<in> set (logged (snd (completion (stub_server (Raises (RequestException ''ConnectionError'')))
                   stub_loads demo_config ''hi'' (7/10) 16 [] fresh_io)))
   \<and> fst (chat_completion (stub_server (Raises (RequestException ''ConnectionError'')))
          stub_loads demo_config [[(''role'', ''user''), (''content'', ''hi'')]] (7/10) 16 []
          fresh_io) = Inr PNone"
  by (simp add: completion_def chat_completion_result send_request_result send_request_refused
        stub_server_def Let_def rejected_keywords_Nil)

text \<open>
  Claim C8 as stated fails: a successful response whose body is not JSON makes
  \<open>chat_completion\<close> raise the decoder's error.
\<close>

theorem invalid_json_body_raises:
  "fst (chat_completion (stub_server (Returns \<lparr>status_code = 200, content = ''<html>''\<rparr>))
          stub_loads demo_config [[(''role'', ''user''), (''content'', ''hi'')]] (7/10) 16 []
          fresh_io) = Inl JSONDecodeError"
  by (simp add: chat_completion_result send_request_result Response_json_def stub_server_def
        stub_loads_def error_body_def hello_body_def rejected_keywords_Nil)

text \<open>
  Claim C8, as amended.  For calls whose extra options are accepted (no key names a
  parameter): \<open>chat_completion\<close> returns normally, with None, when
  \<^verbatim>\<open>requests.post\<close> raises a RequestException and when the body of the response is empty, and
  returns the decoded value when the body is valid JSON; \<open>completion\<close> returns normally when
  the body decodes to a JSON object that holds the key \<^verbatim>\<open>content\<close>.
\<close>

theorem public_calls_return_normally:
  "(rejected_keywords chat_completion_parameters kwargs = []
       \<and> fst (post \<lparr>url = server_url config CHAT_ENDPOINT, headers = request_headers config,
                json = chat_payload messages t m kwargs\<rparr> (world s))
       = Raises (RequestException c)
      \<longrightarrow> fst (chat_completion post loads config messages t m kwargs s) = Inr PNone)
   \<and> (rejected_keywords chat_completion_parameters kwargs = []
       \<and> fst (post \<lparr>url = server_url config CHAT_ENDPOINT, headers = request_headers config,
                json = chat_payload messages t m kwargs\<rparr> (world s)) = Returns r
       \<and> content r = []
      \<longrightarrow> fst (chat_completion post loads config messages t m kwargs s) = Inr PNone)
   \<and> (rejected_keywords chat_completion_parameters kwargs = []
       \<and> fst (post \<lparr>url = server_url config CHAT_ENDPOINT, headers = request_headers config,
                json = chat_payload messages t m kwargs\<rparr> (world s)) = Returns r
       \<and> content r \<noteq> [] \<and> loads (content r) = Some v
      \<longrightarrow> fst (chat_completion post loads config messages t m kwargs s) = Inr v)
   \<and> (rejected_keywords completion_parameters kwargs = []
       \<and> fst (post \<lparr>url = server_url config COMPLETION_ENDPOINT, headers = request_headers config,
                json = completion_payload prompt t m kwargs\<rparr> (world s)) = Returns r
       \<and> content r \<noteq> [] \<and> loads (content r) = Some (PDict d) \<and> map_of d ''content'' = Some x
      \<longrightarrow> fst (completion post loads config prompt t m kwargs s) = Inr x)"
  by (simp add: completion_result chat_completion_result send_request_result Response_json_def
        world_logger)


text \<open>
  One exchange for each of the four cases.
\<close>

theorem public_calls_return_normally_witness:
  "fst (chat_completion (stub_server (Raises (RequestException ''Timeout'')))
          stub_loads demo_config [[(''role'', ''user''), (''content'', ''hi'')]] (7/10) 16 []
          fresh_io) = Inr PNone
   \<and> fst (chat_completion (stub_server (Returns \<lparr>status_code = 204, content = []\<rparr>))
          stub_loads demo_config [[(''role'', ''user''), (''content'', ''hi'')]] (7/10) 16 []
          fresh_io) = Inr PNone
   \<and> fst (chat_completion (stub_server (Returns \<lparr>status_code = 200, content = hello_body\<rparr>))
          stub_loads demo_config [[(''role'', ''user''), (''content'', ''hi'')]] (7/10) 16 []
          fresh_io) = Inr (PDict [(''content'', PStr ''hello'')])
   \<and> fst (completion (stub_server (Returns \<lparr>status_code = 200, content = hello_body\<rparr>))
          stub_loads demo_config ''hi'' (7/10) 16 [] fresh_io) = Inr (PStr ''hello'')"
proof -
  let ?msgs = "[[(''role'', ''user''), (''content'', ''hi'')]]"
  let ?down = "stub_server (Raises (RequestException ''Timeout''))"
  let ?none = "stub_server (Returns \<lparr>status_code = 204, content = []\<rparr>)"
  let ?full = "stub_server (Returns \<lparr>status_code = 200, content = hello_body\<rparr>)"
  have "fst (chat_completion ?down stub_loads demo_config ?msgs (7/10) 16 [] fresh_io) = Inr PNone"
    using public_calls_return_normally
      [where post = ?down and config = demo_config and messages = ?msgs and t = "7/10" and m = 16
         and kwargs = "[]" and s = fresh_io and c = "''Timeout''" and loads = stub_loads]
    by (simp add: stub_server_def rejected_keywords_Nil)
  moreover
  have "fst (chat_completion ?none stub_loads demo_config ?msgs (7/10) 16 [] fresh_io) = Inr PNone"
    using public_calls_return_normally
      [where post = ?none and config = demo_config and messages = ?msgs and t = "7/10" and m = 16
         and kwargs = "[]" and s = fresh_io and r = "\<lparr>status_code = 204, content = []\<rparr>"
         and loads = stub_loads]
    by (simp add: stub_server_def rejected_keywords_Nil)
  moreover
  have "fst (chat_completion ?full stub_loads demo_config ?msgs (7/10) 16 [] fresh_io) =
          Inr (PDict [(''content'', PStr ''hello'')])"
    using public_calls_return_normally
      [where post = ?full and config = demo_config and messages = ?msgs and t = "7/10" and m = 16
         and kwargs = "[]" and s = fresh_io and r = "\<lparr>status_code = 200, content = hello_body\<rparr>"
         and loads = stub_loads and v = "PDict [(''content'', PStr ''hello'')]"]
    by (simp add: stub_server_def stub_loads_def hello_body_def rejected_keywords_Nil)
  moreover
  have "fst (completion ?full stub_loads demo_config ''hi'' (7/10) 16 [] fresh_io) =
          Inr (PStr ''hello'')"
    using public_calls_return_normally
      [where post = ?full and config = demo_config and prompt = "''hi''" and t = "7/10" and m = 16
         and kwargs = "[]" and s = fresh_io and r = "\<lparr>status_code = 200, content = hello_body\<rparr>"
         and loads = stub_loads and d = "[(''content'', PStr ''hello'')]" and x = "PStr ''hello''"]
    by (simp add: stub_server_def stub_loads_def hello_body_def rejected_keywords_Nil)
  ultimately show ?thesis by simp
qed

end
